theory Spec2Isabelle
  imports Main
begin

section \<open>The image component\<close>

subsection \<open>Props and rendered elements\<close>

text \<open>
  The \<^verbatim>\<open>aspectRatio\<close> prop is the union type
  \<^verbatim>\<open>'auto' | 'square' | 'video'\<close>.
\<close>

datatype aspectRatio = auto | square | video

text \<open>
  \<^verbatim>\<open>imgProps?: { className?: string }\<close>: an object with one optional
  field; \<open>None\<close> stands for \<^verbatim>\<open>undefined\<close>.
\<close>

record imgPropsT =
  className :: "string option"

text \<open>
  The \<^verbatim>\<open>Props\<close> interface. Optional props are options, \<open>None\<close> being
  \<^verbatim>\<open>undefined\<close> (the prop is not passed).
\<close>

record Props =
  alt :: string
  aspectRatio :: "aspectRatio option"
  shimmer :: "bool option"
  src :: string
  imgProps :: "imgPropsT option"

text \<open>
  The two \<^verbatim>\<open>useState\<close> cells of one rendered instance of the shimmer path.
\<close>

record RenderState =
  loaded :: bool
  mounted :: bool

text \<open>
  A state setter call, as the closures of the component make them:
  \<^verbatim>\<open>handleLoad\<close> is \<^verbatim>\<open>() => setLoaded(true)\<close> and the effect is
  \<^verbatim>\<open>() => { setMounted(true) }\<close>.
\<close>

datatype action = setLoaded bool | setMounted bool

text \<open>
  The JSX the component returns: a \<^verbatim>\<open>div\<close> with its class name and
  children, or an \<^verbatim>\<open>img\<close> with \<^verbatim>\<open>alt\<close>, \<^verbatim>\<open>className\<close>,
  \<^verbatim>\<open>onLoad\<close> and \<^verbatim>\<open>src\<close>, in the order of the source.
\<close>

datatype element =
    div_el string "element list"
  | img_el string string "action option" string

subsection \<open>Class-name composition\<close>

text \<open>
  An argument of \<^verbatim>\<open>clsx\<close> as the component passes it: a string, a boolean
  (what \<^verbatim>\<open>shimmer && !loaded && '...'\<close> evaluates to when a conjunct is
  false) or \<^verbatim>\<open>undefined\<close>.
\<close>

datatype classValue = Str string | Bool bool | Undefined

text \<open>JavaScript truthiness of such a value.\<close>

fun truthy :: "classValue \<Rightarrow> bool" where
  "truthy (Str s) = (s \<noteq> [])"
| "truthy (Bool b) = b"
| "truthy Undefined = False"

text \<open>
  Modelled from the spec: \<^verbatim>\<open>clsx\<close> is an imported library whose code is not
  among the sources; the spec calls it a class-name composition utility that merges
  conditional class fragments. The model is the library's behaviour on the values
  above: \<^verbatim>\<open>toVal\<close> turns a string into itself and a boolean into the empty
  string, and every argument that is truthy and whose value is non-empty is appended,
  separated by one space.
\<close>

fun toVal :: "classValue \<Rightarrow> string" where
  "toVal (Str s) = s"
| "toVal (Bool b) = []"
| "toVal Undefined = []"

fun clsx_acc :: "string \<Rightarrow> classValue list \<Rightarrow> string" where
  "clsx_acc str [] = str"
| "clsx_acc str (tmp # rest) =
     (if truthy tmp \<and> toVal tmp \<noteq> []
      then clsx_acc ((if str \<noteq> [] then str @ '' '' else str) @ toVal tmp) rest
      else clsx_acc str rest)"

definition clsx :: "classValue list \<Rightarrow> string" where
  "clsx args = clsx_acc [] args"

text \<open>
  The JavaScript expression \<^verbatim>\<open>a && b\<close> for a boolean \<open>a\<close>: the value of
  \<open>b\<close> when \<open>a\<close> is true, \<^verbatim>\<open>false\<close> otherwise.
\<close>

definition js_and :: "bool \<Rightarrow> classValue \<Rightarrow> classValue" where
  "js_and a b = (if a then b else Bool False)"

text \<open>An optional string prop as a class value.\<close>

fun optStr :: "string option \<Rightarrow> classValue" where
  "optStr None = Undefined"
| "optStr (Some s) = Str s"

subsection \<open>The components\<close>

text \<open>
  \<^verbatim>\<open>ImgWrapper\<close>: the lookup table \<^verbatim>\<open>classNameByAspectRatio\<close> and the
  wrapping \<^verbatim>\<open>div\<close>. The parameter default \<^verbatim>\<open>aspectRatio = 'auto'\<close>
  applies when the prop is \<^verbatim>\<open>undefined\<close>.
\<close>

fun classNameByAspectRatio :: "aspectRatio \<Rightarrow> string" where
  "classNameByAspectRatio auto = ''aspect-auto''"
| "classNameByAspectRatio square = ''aspect-square''"
| "classNameByAspectRatio video = ''aspect-video''"

definition ImgWrapper :: "aspectRatio option \<Rightarrow> element list \<Rightarrow> element" where
  "ImgWrapper aspectRatio' children =
     div_el (classNameByAspectRatio (case aspectRatio' of None \<Rightarrow> auto | Some a \<Rightarrow> a)) children"

text \<open>\<^verbatim>\<open>ImgPlaceholder\<close>: a \<^verbatim>\<open>div\<close> with no children.\<close>

definition ImgPlaceholder :: element where
  "ImgPlaceholder = div_el ''h-full w-full bg-slate-100 dark:bg-slate-900 animate-pulse'' []"

text \<open>
  \<^verbatim>\<open>Img\<close>, its destructured parameters in the order of the source:
  \<^verbatim>\<open>alt, className, handleLoad, loaded = false, shimmer = false, src\<close>.
\<close>

definition Img ::
  "string \<Rightarrow> string option \<Rightarrow> action option \<Rightarrow> bool option \<Rightarrow> bool option \<Rightarrow> string \<Rightarrow> element"
where
  "Img alt' className' handleLoad loaded' shimmer' src' =
     (let loaded'' = (case loaded' of None \<Rightarrow> False | Some b \<Rightarrow> b);
          shimmer'' = (case shimmer' of None \<Rightarrow> False | Some b \<Rightarrow> b)
      in img_el alt'
           (clsx [Str ''h-full w-full'',
                  js_and shimmer''
                    (js_and (\<not> loaded'') (Str ''bg-slate-100 dark:bg-slate-900 animate-pulse'')),
                  optStr className'])
           handleLoad
           src')"

text \<open>
  \<^verbatim>\<open>Image\<close>. The hooks' state is passed in: \<open>s\<close> holds what the two
  \<^verbatim>\<open>useState\<close> calls return in this render. The non-shimmer branch returns
  before any hook is called. Neither call of \<^verbatim>\<open>Img\<close> passes
  \<^verbatim>\<open>shimmer\<close>.
\<close>

definition Image :: "Props \<Rightarrow> RenderState \<Rightarrow> element" where
  "Image p s =
     (let aspectRatio' = (case aspectRatio p of None \<Rightarrow> auto | Some a \<Rightarrow> a);
          imgProps' = (case imgProps p of None \<Rightarrow> \<lparr>className = None\<rparr> | Some ip \<Rightarrow> ip);
          shimmer' = (case shimmer p of None \<Rightarrow> False | Some b \<Rightarrow> b);
          className' = className imgProps'
      in if \<not> shimmer' then
           ImgWrapper (Some aspectRatio') [Img (alt p) className' None None None (src p)]
         else
           ImgWrapper (Some aspectRatio')
             [if mounted s
              then Img (alt p) className' (Some (setLoaded True)) (Some (loaded s)) None (src p)
              else ImgPlaceholder])"

subsection \<open>Reading a rendered tree\<close>

text \<open>Every node of a rendered tree, parents first.\<close>

fun nodes :: "element \<Rightarrow> element list" where
  "nodes (div_el c children) = div_el c children # concat (map nodes children)"
| "nodes (img_el a c h s) = [img_el a c h s]"

fun is_img :: "element \<Rightarrow> bool" where
  "is_img (img_el a c h s) = True"
| "is_img (div_el c children) = False"

text \<open>The \<^verbatim>\<open>img\<close> elements of a tree, and whether the placeholder is in it.\<close>

definition imgs :: "element \<Rightarrow> element list" where
  "imgs e = filter is_img (nodes e)"

definition has_placeholder :: "element \<Rightarrow> bool" where
  "has_placeholder e = (ImgPlaceholder \<in> set (nodes e))"

text \<open>The attributes of an element; a \<^verbatim>\<open>div\<close> of this component has no handler.\<close>

fun className_of :: "element \<Rightarrow> string" where
  "className_of (div_el c children) = c"
| "className_of (img_el a c h s) = c"

fun onLoad_of :: "element \<Rightarrow> action option" where
  "onLoad_of (img_el a c h s) = h"
| "onLoad_of (div_el c children) = None"

text \<open>
  The class list of an element: its class name split at ASCII whitespace (space, tab,
  line feed, form feed, carriage return), empty tokens dropped.
\<close>

definition is_space :: "char \<Rightarrow> bool" where
  "is_space c = (c = CHR '' '' \<or> c = CHR 0x09 \<or> c = CHR 0x0A \<or> c = CHR 0x0C \<or> c = CHR 0x0D)"

fun tokens_acc :: "string \<Rightarrow> string \<Rightarrow> string list" where
  "tokens_acc cur [] = (if cur = [] then [] else [cur])"
| "tokens_acc cur (c # cs) =
     (if is_space c
      then (if cur = [] then tokens_acc [] cs else cur # tokens_acc [] cs)
      else tokens_acc (cur @ [c]) cs)"

definition classList :: "string \<Rightarrow> string list" where
  "classList s = tokens_acc [] s"

text \<open>The tokens of the shimmer fragment that \<^verbatim>\<open>Img\<close> composes in.\<close>

definition pulse_classes :: "string list" where
  "pulse_classes = [''bg-slate-100'', ''dark:bg-slate-900'', ''animate-pulse'']"

subsection \<open>State and events of one instance\<close>

text \<open>Both cells start as \<^verbatim>\<open>useState(false)\<close>.\<close>

definition init :: RenderState where
  "init = \<lparr>loaded = False, mounted = False\<rparr>"

fun dispatch :: "action \<Rightarrow> RenderState \<Rightarrow> RenderState" where
  "dispatch (setLoaded b) s = s\<lparr>loaded := b\<rparr>"
| "dispatch (setMounted b) s = s\<lparr>mounted := b\<rparr>"

text \<open>
  What the environment can do to an instance: run the effect registered by
  \<^verbatim>\<open>useEffect\<close> (never on the server), or fire the \<^verbatim>\<open>load\<close> event of
  the \<^verbatim>\<open>img\<close> elements that are in the rendered tree.
\<close>

datatype event = effect_run | img_load

definition shimmer_on :: "Props \<Rightarrow> bool" where
  "shimmer_on p = (case shimmer p of None \<Rightarrow> False | Some b \<Rightarrow> b)"

text \<open>
  One event. The effect exists only on the shimmer path (the other branch returns
  before \<^verbatim>\<open>useEffect\<close>). A \<^verbatim>\<open>load\<close> event reaches the
  \<^verbatim>\<open>onLoad\<close> handlers of the \<^verbatim>\<open>img\<close> elements of the current
  render, and nothing else.
\<close>

fun fire :: "Props \<Rightarrow> RenderState \<Rightarrow> event \<Rightarrow> RenderState" where
  "fire p s effect_run = (if shimmer_on p then dispatch (setMounted True) s else s)"
| "fire p s img_load = fold dispatch (List.map_filter onLoad_of (imgs (Image p s))) s"

fun run :: "Props \<Rightarrow> RenderState \<Rightarrow> event list \<Rightarrow> RenderState" where
  "run p s [] = s"
| "run p s (e # es) = run p (fire p s e) es"

text \<open>The states an instance goes through, the starting state first.\<close>

fun trace :: "Props \<Rightarrow> RenderState \<Rightarrow> event list \<Rightarrow> RenderState list" where
  "trace p s [] = [s]"
| "trace p s (e # es) = s # trace p (fire p s e) es"

text \<open>The props after the parameter defaults, as \<^verbatim>\<open>Image\<close> resolves them.\<close>

definition aspectRatio_of :: "Props \<Rightarrow> aspectRatio" where
  "aspectRatio_of p = (case aspectRatio p of None \<Rightarrow> auto | Some a \<Rightarrow> a)"

definition extraClassName :: "Props \<Rightarrow> string option" where
  "extraClassName p = (case imgProps p of None \<Rightarrow> None | Some ip \<Rightarrow> className ip)"

fun alt_of :: "element \<Rightarrow> string" where
  "alt_of (img_el a c h s) = a"
| "alt_of (div_el c children) = []"

fun src_of :: "element \<Rightarrow> string" where
  "src_of (img_el a c h s) = s"
| "src_of (div_el c children) = []"

section \<open>The content schema\<close>

text \<open>
  A frontmatter value: what the build pipeline hands to the schema. An object is the
  list of its entries, looked up by key with \<open>map_of\<close>.
\<close>

datatype jsval =
    JString string
  | JDate int
  | JNumber int
  | JBoolean bool
  | JNull
  | JArray "jsval list"
  | JObject "(string \<times> jsval) list"

text \<open>The schema combinators that \<^verbatim>\<open>config.ts\<close> uses.\<close>

datatype zschema =
    ZString
  | ZDate
  | ZOr zschema zschema
  | ZOptional zschema
  | ZObject "(string \<times> zschema) list"

text \<open>
  Modelled from the spec: the validation library behind \<^verbatim>\<open>z\<close> is imported and
  its code is not among the sources; the spec says the schema fails the build when a
  required field is absent or has the wrong shape. The model is the library's parse
  outcome (success or failure) for the combinators above; the input of a field's schema
  is \<open>None\<close> when the object has no such key. An object schema checks its own keys
  and ignores the others.
\<close>

fun accepts :: "zschema \<Rightarrow> jsval option \<Rightarrow> bool"
  and accepts_shape :: "(string \<times> zschema) list \<Rightarrow> (string \<times> jsval) list \<Rightarrow> bool"
where
  "accepts ZString v = (case v of Some (JString s) \<Rightarrow> True | _ \<Rightarrow> False)"
| "accepts ZDate v = (case v of Some (JDate d) \<Rightarrow> True | _ \<Rightarrow> False)"
| "accepts (ZOr a b) v = (accepts a v \<or> accepts b v)"
| "accepts (ZOptional a) v = (v = None \<or> accepts a v)"
| "accepts (ZObject shape) v = (case v of Some (JObject kvs) \<Rightarrow> accepts_shape shape kvs | _ \<Rightarrow> False)"
| "accepts_shape [] kvs = True"
| "accepts_shape ((k, sch) # rest) kvs = (accepts sch (map_of kvs k) \<and> accepts_shape rest kvs)"

text \<open>The \<^verbatim>\<open>blog\<close> collection: \<^verbatim>\<open>defineCollection({ schema: z.object({...}) })\<close>.\<close>

record collection =
  schema :: zschema

definition blog :: collection where
  "blog = \<lparr>schema = ZObject
     [(''title'', ZString),
      (''description'', ZString),
      (''publishDate'', ZOptional (ZOr ZString ZDate)),
      (''updateDate'', ZOptional (ZOr ZString ZDate)),
      (''heroImage'', ZOptional ZString)]\<rparr>"

text \<open>
  The record shape in the spec's words: string title and description (required),
  publishDate and updateDate string-or-date (optional), heroImage string (optional).
\<close>

fun spec_string :: "jsval option \<Rightarrow> bool" where
  "spec_string (Some (JString s)) = True"
| "spec_string v = False"

fun spec_string_or_date :: "jsval option \<Rightarrow> bool" where
  "spec_string_or_date (Some (JString s)) = True"
| "spec_string_or_date (Some (JDate d)) = True"
| "spec_string_or_date v = False"

definition spec_optional :: "(jsval option \<Rightarrow> bool) \<Rightarrow> jsval option \<Rightarrow> bool" where
  "spec_optional shape v = (v = None \<or> shape v)"

fun spec_record :: "jsval \<Rightarrow> bool" where
  "spec_record (JObject kvs) =
     (spec_string (map_of kvs ''title'') \<and>
      spec_string (map_of kvs ''description'') \<and>
      spec_optional spec_string_or_date (map_of kvs ''publishDate'') \<and>
      spec_optional spec_string_or_date (map_of kvs ''updateDate'') \<and>
      spec_optional spec_string (map_of kvs ''heroImage''))"
| "spec_record v = False"

text \<open>The class list of the caller-supplied class name (empty when there is none).\<close>

definition extra_classes :: "Props \<Rightarrow> string list" where
  "extra_classes p = classList (case extraClassName p of None \<Rightarrow> [] | Some x \<Rightarrow> x)"

section \<open>Example instances\<close>

text \<open>
  The two uses in the doc comment of \<^verbatim>\<open>Image\<close>: a shimmer instance and a
  static one with a caller-supplied class.
\<close>

definition cat_shimmer :: Props where
  "cat_shimmer = \<lparr>alt = ''A cat'', aspectRatio = Some video, shimmer = Some True,
                   src = ''/cat.jpg'', imgProps = None\<rparr>"

definition cat_static :: Props where
  "cat_static = \<lparr>alt = ''A cat'', aspectRatio = Some video, shimmer = None,
                  src = ''/cat.jpg'', imgProps = Some \<lparr>className = Some ''some-class''\<rparr>\<rparr>"

section \<open>Properties of the image component\<close>

subsection \<open>What each branch renders\<close>

lemma clsx_base_none: "clsx [Str ''h-full w-full'', Bool False, Undefined] = ''h-full w-full''"
  by (simp add: clsx_def)

lemma clsx_base_some:
  "clsx [Str ''h-full w-full'', Bool False, Str x] =
     (if x = [] then ''h-full w-full'' else ''h-full w-full '' @ x)"
  by (simp add: clsx_def)

lemma Img_no_shimmer:
  "Img a c h l None s = img_el a (clsx [Str ''h-full w-full'', Bool False, optStr c]) h s"
  by (simp add: Img_def js_and_def)

lemma Image_shimmer_off:
  "\<not> shimmer_on p \<Longrightarrow>
   Image p s = div_el (classNameByAspectRatio (aspectRatio_of p))
     [img_el (alt p) (clsx [Str ''h-full w-full'', Bool False, optStr (extraClassName p)]) None (src p)]"
  by (simp add: Image_def shimmer_on_def ImgWrapper_def Img_no_shimmer aspectRatio_of_def
      extraClassName_def Let_def split: option.splits)

lemma Image_unmounted:
  "shimmer_on p \<Longrightarrow> \<not> mounted s \<Longrightarrow>
   Image p s = div_el (classNameByAspectRatio (aspectRatio_of p)) [ImgPlaceholder]"
  by (simp add: Image_def shimmer_on_def ImgWrapper_def aspectRatio_of_def Let_def
      split: option.splits)

lemma Image_mounted:
  "shimmer_on p \<Longrightarrow> mounted s \<Longrightarrow>
   Image p s = div_el (classNameByAspectRatio (aspectRatio_of p))
     [img_el (alt p) (clsx [Str ''h-full w-full'', Bool False, optStr (extraClassName p)])
        (Some (setLoaded True)) (src p)]"
  by (simp add: Image_def shimmer_on_def ImgWrapper_def Img_no_shimmer aspectRatio_of_def
      extraClassName_def Let_def split: option.splits)

lemma fire_img_load:
  "fire p s img_load = (if shimmer_on p \<and> mounted s then s\<lparr>loaded := True\<rparr> else s)"
proof (cases "shimmer_on p")
  case False
  then show ?thesis
    by (simp add: fire.simps(2) Image_shimmer_off imgs_def List.map_filter_def)
next
  case True
  show ?thesis
  proof (cases "mounted s")
    case True
    with \<open>shimmer_on p\<close> show ?thesis
      by (simp add: fire.simps(2) Image_mounted imgs_def List.map_filter_def)
  next
    case False
    with \<open>shimmer_on p\<close> show ?thesis
      by (simp add: fire.simps(2) Image_unmounted imgs_def ImgPlaceholder_def List.map_filter_def)
  qed
qed

declare fire.simps(2) [simp del]

lemma fire_loaded_mono: "loaded s \<Longrightarrow> loaded (fire p s e)"
  by (cases e) (simp_all add: fire_img_load)

lemma fire_mounted_mono: "mounted s \<Longrightarrow> mounted (fire p s e)"
  by (cases e) (simp_all add: fire_img_load)

lemma fire_inv: "(loaded s \<longrightarrow> mounted s) \<Longrightarrow> loaded (fire p s e) \<longrightarrow> mounted (fire p s e)"
  by (cases e) (simp_all add: fire_img_load)

lemma run_inv: "(loaded s \<longrightarrow> mounted s) \<Longrightarrow> loaded (run p s es) \<longrightarrow> mounted (run p s es)"
proof (induction es arbitrary: s)
  case Nil
  then show ?case by simp
next
  case (Cons e es)
  from Cons.prems have "loaded (fire p s e) \<longrightarrow> mounted (fire p s e)"
    by (rule fire_inv)
  then show ?case using Cons.IH by simp
qed

lemma run_init_inv: "loaded (run p init es) \<Longrightarrow> mounted (run p init es)"
  using run_inv [of init p es] by (simp add: init_def)

lemma fire_idem: "fire p (fire p s e) e = fire p s e"
  by (cases e) (simp_all add: fire_img_load)

lemma trace_loaded_from: "loaded s \<Longrightarrow> t \<in> set (trace p s es) \<Longrightarrow> loaded t"
proof (induction es arbitrary: s)
  case Nil
  then show ?case by simp
next
  case (Cons e es)
  from Cons.prems(2) have "t = s \<or> t \<in> set (trace p (fire p s e) es)"
    by simp
  then show ?case
  proof
    assume "t = s"
    with Cons.prems(1) show ?thesis by simp
  next
    assume "t \<in> set (trace p (fire p s e) es)"
    with Cons.IH [OF fire_loaded_mono [OF Cons.prems(1)]] show ?thesis .
  qed
qed

lemma trace_mounted_from: "mounted s \<Longrightarrow> t \<in> set (trace p s es) \<Longrightarrow> mounted t"
proof (induction es arbitrary: s)
  case Nil
  then show ?case by simp
next
  case (Cons e es)
  from Cons.prems(2) have "t = s \<or> t \<in> set (trace p (fire p s e) es)"
    by simp
  then show ?case
  proof
    assume "t = s"
    with Cons.prems(1) show ?thesis by simp
  next
    assume "t \<in> set (trace p (fire p s e) es)"
    with Cons.IH [OF fire_mounted_mono [OF Cons.prems(1)]] show ?thesis .
  qed
qed

lemma sorted_loaded: "sorted (map loaded (trace p s es))"
proof (induction es arbitrary: s)
  case Nil
  then show ?case by simp
next
  case (Cons e es)
  show ?case
  proof (cases "loaded s")
    case True
    then have "\<forall>t \<in> set (trace p (fire p s e) es). loaded t"
      by (blast intro: trace_loaded_from fire_loaded_mono)
    then show ?thesis using Cons.IH [of "fire p s e"] by simp
  next
    case False
    then show ?thesis using Cons.IH [of "fire p s e"] by simp
  qed
qed

lemma sorted_mounted: "sorted (map mounted (trace p s es))"
proof (induction es arbitrary: s)
  case Nil
  then show ?case by simp
next
  case (Cons e es)
  show ?case
  proof (cases "mounted s")
    case True
    then have "\<forall>t \<in> set (trace p (fire p s e) es). mounted t"
      by (blast intro: trace_mounted_from fire_mounted_mono)
    then show ?thesis using Cons.IH [of "fire p s e"] by simp
  next
    case False
    then show ?thesis using Cons.IH [of "fire p s e"] by simp
  qed
qed

lemma fire_shimmer_off: "\<not> shimmer_on p \<Longrightarrow> fire p s e = s"
  by (cases e) (simp_all add: fire_img_load)

lemma run_shimmer_off: "\<not> shimmer_on p \<Longrightarrow> run p s es = s"
  by (induction es arbitrary: s) (simp_all add: fire_shimmer_off)

lemma tokens_acc_space:
  "tokens_acc cur (a @ CHR '' '' # b) = tokens_acc cur a @ tokens_acc [] b"
  by (induction a arbitrary: cur) (simp_all add: is_space_def)

lemma classList_base: "classList ''h-full w-full'' = [''h-full'', ''w-full'']"
  by (simp add: classList_def is_space_def)

lemma classList_base_extra:
  "classList (''h-full w-full '' @ x) = [''h-full'', ''w-full''] @ classList x"
  using tokens_acc_space [of "[]" "''h-full w-full''" x]
  by (simp add: classList_def is_space_def)

lemma classList_Nil: "classList [] = []"
  by (simp add: classList_def)



lemma imgs_wrapper_img: "imgs (div_el w [img_el a c h s]) = [img_el a c h s]"
  by (simp add: imgs_def)

lemma imgs_wrapper_placeholder: "imgs (div_el w [ImgPlaceholder]) = []"
  by (simp add: imgs_def ImgPlaceholder_def)

lemma classList_clsx:
  "classList (clsx [Str ''h-full w-full'', Bool False, optStr c]) =
     [''h-full'', ''w-full''] @ classList (case c of None \<Rightarrow> [] | Some x \<Rightarrow> x)"
proof (cases c)
  case None
  then show ?thesis by (simp add: clsx_base_none classList_base classList_Nil)
next
  case (Some x)
  then show ?thesis
    by (simp add: clsx_base_some classList_base classList_Nil classList_base_extra
        del: append.simps)
qed

lemma cat_shimmer_on: "shimmer_on cat_shimmer"
  by (simp add: cat_shimmer_def shimmer_on_def)

lemma cat_static_off: "\<not> shimmer_on cat_static"
  by (simp add: cat_static_def shimmer_on_def)

lemma run_cat_mount: "run cat_shimmer init [effect_run] = \<lparr>loaded = False, mounted = True\<rparr>"
  by (simp add: cat_shimmer_on init_def)

lemma run_cat_load:
  "run cat_shimmer init [effect_run, img_load] = \<lparr>loaded = True, mounted = True\<rparr>"
  by (simp add: cat_shimmer_on init_def fire_img_load)

lemma UNIV_aspectRatio: "(UNIV :: aspectRatio set) = {auto, square, video}"
proof
  show "(UNIV :: aspectRatio set) \<subseteq> {auto, square, video}"
  proof
    fix m :: aspectRatio
    show "m \<in> {auto, square, video}" by (cases m) simp_all
  qed
qed simp

lemma nodes_static:
  "nodes (div_el w [img_el a c h s]) = [div_el w [img_el a c h s], img_el a c h s]"
  by simp

lemma pulse_not_base: "t \<in> set pulse_classes \<Longrightarrow> t \<notin> set [''h-full'', ''w-full'']"
  by (auto simp: pulse_classes_def)

subsection \<open>The claims\<close>

text \<open>
  C1. Claimed: with shimmer enabled, once the effect has run and before the image has
  loaded (mounted, not loaded), the image element carries the pulsing class. The code
  does not do this: \<^verbatim>\<open>Image\<close> never passes \<^verbatim>\<open>shimmer\<close> to
  \<^verbatim>\<open>Img\<close>, so the fragment guarded by \<^verbatim>\<open>shimmer && !loaded\<close> is never
  composed in. At the doc comment's own shimmer example, in the state reached by the
  effect, the image element's class name is exactly the two sizing classes.
\<close>

theorem pulse_class_missing_when_loading:
  "shimmer_on cat_shimmer \<and>
   run cat_shimmer init [effect_run] = \<lparr>loaded = False, mounted = True\<rparr> \<and>
   Image cat_shimmer \<lparr>loaded = False, mounted = True\<rparr> =
     div_el ''aspect-video''
       [img_el ''A cat'' ''h-full w-full'' (Some (setLoaded True)) ''/cat.jpg''] \<and>
   classList ''h-full w-full'' = [''h-full'', ''w-full''] \<and>
   ''animate-pulse'' \<notin> set (classList ''h-full w-full'')"
proof -
  have 1: "Image cat_shimmer \<lparr>loaded = False, mounted = True\<rparr> =
     div_el ''aspect-video''
       [img_el ''A cat'' ''h-full w-full'' (Some (setLoaded True)) ''/cat.jpg'']"
    by (simp add: Image_mounted [OF cat_shimmer_on] clsx_base_none)
       (simp add: cat_shimmer_def aspectRatio_of_def extraClassName_def clsx_base_none)
  have 2: "''animate-pulse'' \<notin> set (classList ''h-full w-full'')"
    by (simp add: classList_base)
  from cat_shimmer_on run_cat_mount 1 classList_base 2 show ?thesis
    by (intro conjI)
qed

text \<open>
  C2. With shimmer enabled and the effect not yet run (not mounted), the wrapper holds
  the placeholder and nothing else: the tree has no image element, and the placeholder's
  class list has the full-height, full-width and pulsing classes.
\<close>

theorem placeholder_only_before_mount:
  assumes "shimmer_on p" and "\<not> mounted s"
  shows "Image p s = ImgWrapper (aspectRatio p) [ImgPlaceholder] \<and>
         has_placeholder (Image p s) \<and>
         imgs (Image p s) = [] \<and>
         set [''h-full'', ''w-full'', ''animate-pulse''] \<subseteq> set (classList (className_of ImgPlaceholder))"
proof -
  have t: "Image p s = div_el (classNameByAspectRatio (aspectRatio_of p)) [ImgPlaceholder]"
    using assms by (rule Image_unmounted)
  have 1: "Image p s = ImgWrapper (aspectRatio p) [ImgPlaceholder]"
    by (simp add: t ImgWrapper_def aspectRatio_of_def)
  have 2: "has_placeholder (Image p s)"
    by (simp add: t has_placeholder_def) (simp add: ImgPlaceholder_def)
  have 3: "imgs (Image p s) = []"
    by (simp add: t imgs_wrapper_placeholder)
  have 4: "classList (className_of ImgPlaceholder) =
             [''h-full'', ''w-full'', ''bg-slate-100'', ''dark:bg-slate-900'', ''animate-pulse'']"
    by (simp add: ImgPlaceholder_def classList_def is_space_def)
  show ?thesis using 1 2 3 by (simp add: 4)
qed

theorem placeholder_only_before_mount_witness:
  "shimmer_on cat_shimmer \<and> \<not> mounted init \<and>
   Image cat_shimmer init = ImgWrapper (aspectRatio cat_shimmer) [ImgPlaceholder] \<and>
   has_placeholder (Image cat_shimmer init) \<and>
   imgs (Image cat_shimmer init) = []"
proof -
  have h: "\<not> mounted init" by (simp add: init_def)
  from placeholder_only_before_mount [OF cat_shimmer_on h] cat_shimmer_on h
  show ?thesis by blast
qed

text \<open>
  C3. With shimmer off (the default), every render, the first included, is the wrapper
  with the one image element inside; the tree never holds the placeholder, and no event
  changes anything, so there is no intermediate state.
\<close>

theorem image_in_first_render:
  assumes "\<not> shimmer_on p"
  shows "Image p s = ImgWrapper (aspectRatio p) [Img (alt p) (extraClassName p) None None None (src p)] \<and>
         imgs (Image p s) = [Img (alt p) (extraClassName p) None None None (src p)] \<and>
         is_img (Img (alt p) (extraClassName p) None None None (src p)) \<and>
         \<not> has_placeholder (Image p s) \<and>
         run p init es = init \<and>
         Image p (run p init es) = Image p init"
proof -
  let ?i = "img_el (alt p) (clsx [Str ''h-full w-full'', Bool False, optStr (extraClassName p)]) None (src p)"
  have i: "Img (alt p) (extraClassName p) None None None (src p) = ?i"
    by (rule Img_no_shimmer)
  have t: "Image p s = div_el (classNameByAspectRatio (aspectRatio_of p)) [?i]" for s
    using assms by (rule Image_shimmer_off)
  have 1: "Image p s = ImgWrapper (aspectRatio p) [Img (alt p) (extraClassName p) None None None (src p)]"
    unfolding i t by (simp add: ImgWrapper_def aspectRatio_of_def)
  have 2: "imgs (Image p s) = [Img (alt p) (extraClassName p) None None None (src p)]"
    unfolding i t by (rule imgs_wrapper_img)
  have 3: "is_img (Img (alt p) (extraClassName p) None None None (src p))"
    unfolding i by simp
  have 4: "\<not> has_placeholder (Image p s)"
    unfolding t has_placeholder_def nodes_static by (simp add: ImgPlaceholder_def)
  have 5: "run p init es = init"
    using assms by (rule run_shimmer_off)
  have 6: "Image p (run p init es) = Image p init"
    by (simp only: 5)
  from 1 2 3 4 5 6 show ?thesis by (intro conjI)
qed

theorem image_in_first_render_witness:
  "\<not> shimmer_on cat_static \<and>
   Image cat_static init =
     div_el ''aspect-video'' [img_el ''A cat'' ''h-full w-full some-class'' None ''/cat.jpg''] \<and>
   imgs (Image cat_static init) = [Img (alt cat_static) (extraClassName cat_static) None None None (src cat_static)] \<and>
   \<not> has_placeholder (Image cat_static init) \<and>
   run cat_static init [effect_run, img_load] = init"
proof -
  have v: "Image cat_static init =
     div_el ''aspect-video'' [img_el ''A cat'' ''h-full w-full some-class'' None ''/cat.jpg'']"
    by (simp add: Image_shimmer_off [OF cat_static_off])
       (simp add: cat_static_def aspectRatio_of_def extraClassName_def clsx_base_some)
  from image_in_first_render [OF cat_static_off, of init "[effect_run, img_load]"] cat_static_off v
  show ?thesis by blast
qed

text \<open>
  C4. The table from aspect-ratio mode to the wrapper's class: auto, square and video
  go to aspect-auto, aspect-square and aspect-video, no two modes share a class, and
  the table is a bijection between the three modes and the three classes. The wrapper
  that \<^verbatim>\<open>Image\<close> renders carries the class of the resolved mode.
\<close>

theorem aspect_class_bijection:
  "classNameByAspectRatio auto = ''aspect-auto'' \<and>
   classNameByAspectRatio square = ''aspect-square'' \<and>
   classNameByAspectRatio video = ''aspect-video'' \<and>
   inj classNameByAspectRatio \<and>
   bij_betw classNameByAspectRatio UNIV {''aspect-auto'', ''aspect-square'', ''aspect-video''} \<and>
   className_of (ImgWrapper (Some m) children) = classNameByAspectRatio m \<and>
   className_of (Image p s) = classNameByAspectRatio (aspectRatio_of p)"
proof -
  have inj: "inj classNameByAspectRatio"
  proof (rule injI)
    fix x y
    assume "classNameByAspectRatio x = classNameByAspectRatio y"
    then show "x = y" by (cases x; cases y) simp_all
  qed
  have img: "classNameByAspectRatio ` UNIV = {''aspect-auto'', ''aspect-square'', ''aspect-video''}"
    by (simp add: UNIV_aspectRatio)
  have bij: "bij_betw classNameByAspectRatio UNIV {''aspect-auto'', ''aspect-square'', ''aspect-video''}"
    unfolding bij_betw_def using inj img by blast
  have w: "className_of (ImgWrapper (Some m) children) = classNameByAspectRatio m"
    by (simp add: ImgWrapper_def)
  have c: "className_of (Image p s) = classNameByAspectRatio (aspectRatio_of p)"
    by (simp add: Image_def ImgWrapper_def aspectRatio_of_def Let_def)
  from inj bij w c show ?thesis by simp
qed

theorem aspect_class_bijection_witness:
  "classNameByAspectRatio square \<noteq> classNameByAspectRatio video \<and>
   className_of (Image cat_shimmer init) = ''aspect-video''"
proof -
  have i: "inj classNameByAspectRatio"
    using aspect_class_bijection by blast
  have 1: "classNameByAspectRatio square \<noteq> classNameByAspectRatio video"
  proof
    assume "classNameByAspectRatio square = classNameByAspectRatio video"
    with i have "square = video" by (rule injD)
    then show False by simp
  qed
  have 2: "className_of (Image cat_shimmer init) = ''aspect-video''"
    using aspect_class_bijection [of auto "[]" cat_shimmer init]
    by (simp add: aspectRatio_of_def cat_shimmer_def)
  from 1 2 show ?thesis by (intro conjI)
qed

text \<open>
  C5. With shimmer enabled, in a state reached from the initial one in which the image
  has loaded: the image element is in the tree, its class list is the two sizing
  classes followed by the caller's classes, and a pulse class is in it only when the
  caller supplied it.
\<close>

theorem pulse_class_absent_when_loaded:
  assumes "shimmer_on p" and "loaded (run p init es)"
  shows "imgs (Image p (run p init es)) =
           [img_el (alt p) (clsx [Str ''h-full w-full'', Bool False, optStr (extraClassName p)])
              (Some (setLoaded True)) (src p)] \<and>
         classList (clsx [Str ''h-full w-full'', Bool False, optStr (extraClassName p)]) =
           [''h-full'', ''w-full''] @ extra_classes p \<and>
         (\<forall>t \<in> set pulse_classes.
            t \<in> set (classList (clsx [Str ''h-full w-full'', Bool False, optStr (extraClassName p)]))
              \<longleftrightarrow> t \<in> set (extra_classes p))"
proof -
  let ?c = "clsx [Str ''h-full w-full'', Bool False, optStr (extraClassName p)]"
  have m: "mounted (run p init es)"
    using assms(2) by (rule run_init_inv)
  have 1: "imgs (Image p (run p init es)) =
             [img_el (alt p) ?c (Some (setLoaded True)) (src p)]"
    by (simp only: Image_mounted [OF assms(1) m] imgs_wrapper_img)
  have 2: "classList ?c = [''h-full'', ''w-full''] @ extra_classes p"
    unfolding extra_classes_def by (rule classList_clsx)
  have 3: "\<forall>t \<in> set pulse_classes. t \<in> set (classList ?c) \<longleftrightarrow> t \<in> set (extra_classes p)"
  proof
    fix t
    assume "t \<in> set pulse_classes"
    then have "t \<notin> set [''h-full'', ''w-full'']" by (rule pulse_not_base)
    then show "t \<in> set (classList ?c) \<longleftrightarrow> t \<in> set (extra_classes p)"
      unfolding 2 by auto
  qed
  from 1 2 3 show ?thesis by (intro conjI)
qed

theorem pulse_class_absent_when_loaded_witness:
  "shimmer_on cat_shimmer \<and>
   loaded (run cat_shimmer init [effect_run, img_load]) \<and>
   imgs (Image cat_shimmer (run cat_shimmer init [effect_run, img_load])) =
     [img_el ''A cat'' ''h-full w-full'' (Some (setLoaded True)) ''/cat.jpg''] \<and>
   classList ''h-full w-full'' = [''h-full'', ''w-full''] \<and>
   ''animate-pulse'' \<notin> set (classList ''h-full w-full'')"
proof -
  have l: "loaded (run cat_shimmer init [effect_run, img_load])"
    by (simp only: run_cat_load) simp
  have e: "extraClassName cat_shimmer = None"
    by (simp add: cat_shimmer_def extraClassName_def)
  have c: "clsx [Str ''h-full w-full'', Bool False, optStr (extraClassName cat_shimmer)] = ''h-full w-full''"
    by (simp add: e clsx_base_none)
  have x: "extra_classes cat_shimmer = []"
    by (simp add: extra_classes_def e classList_Nil)
  have a: "alt cat_shimmer = ''A cat''" "src cat_shimmer = ''/cat.jpg''"
    by (simp_all add: cat_shimmer_def)
  have p: "''animate-pulse'' \<in> set pulse_classes"
    by (simp add: pulse_classes_def)
  note t = pulse_class_absent_when_loaded [OF cat_shimmer_on l, unfolded c x a]
  from t have 1: "imgs (Image cat_shimmer (run cat_shimmer init [effect_run, img_load])) =
     [img_el ''A cat'' ''h-full w-full'' (Some (setLoaded True)) ''/cat.jpg'']"
    by blast
  from t have 2: "classList ''h-full w-full'' = [''h-full'', ''w-full'']"
    by simp
  from t p have 3: "''animate-pulse'' \<notin> set (classList ''h-full w-full'')"
    by (metis empty_iff list.set(1))
  from cat_shimmer_on l 1 2 3 show ?thesis by (intro conjI)
qed

text \<open>
  C6. On the shimmer path both flags are monotonic: along the states an instance goes
  through, from any starting state and under any events, the values of each flag are
  sorted (all \<open>False\<close> before all \<open>True\<close>), so each flag rises at most once and
  is never reset. Each event is idempotent, and a load event in the state mounted and
  loaded leaves that state unchanged.
\<close>

theorem flags_monotonic_idempotent:
  assumes "shimmer_on p"
  shows "sorted (map loaded (trace p s es)) \<and>
         sorted (map mounted (trace p s es)) \<and>
         (loaded s \<longrightarrow> loaded (fire p s e)) \<and>
         (mounted s \<longrightarrow> mounted (fire p s e)) \<and>
         fire p (fire p s e) e = fire p s e \<and>
         fire p \<lparr>loaded = True, mounted = True\<rparr> img_load = \<lparr>loaded = True, mounted = True\<rparr>"
proof -
  have 1: "fire p \<lparr>loaded = True, mounted = True\<rparr> img_load = \<lparr>loaded = True, mounted = True\<rparr>"
    using assms by (simp add: fire_img_load)
  from sorted_loaded sorted_mounted fire_loaded_mono fire_mounted_mono fire_idem 1
  show ?thesis by blast
qed

theorem flags_monotonic_idempotent_witness:
  "shimmer_on cat_shimmer \<and>
   trace cat_shimmer init [img_load, effect_run, effect_run, img_load, img_load] =
     [\<lparr>loaded = False, mounted = False\<rparr>, \<lparr>loaded = False, mounted = False\<rparr>,
      \<lparr>loaded = False, mounted = True\<rparr>, \<lparr>loaded = False, mounted = True\<rparr>,
      \<lparr>loaded = True, mounted = True\<rparr>, \<lparr>loaded = True, mounted = True\<rparr>] \<and>
   sorted (map loaded (trace cat_shimmer init [img_load, effect_run, effect_run, img_load, img_load])) \<and>
   sorted (map mounted (trace cat_shimmer init [img_load, effect_run, effect_run, img_load, img_load])) \<and>
   fire cat_shimmer \<lparr>loaded = True, mounted = True\<rparr> img_load = \<lparr>loaded = True, mounted = True\<rparr>"
proof -
  have t: "trace cat_shimmer init [img_load, effect_run, effect_run, img_load, img_load] =
     [\<lparr>loaded = False, mounted = False\<rparr>, \<lparr>loaded = False, mounted = False\<rparr>,
      \<lparr>loaded = False, mounted = True\<rparr>, \<lparr>loaded = False, mounted = True\<rparr>,
      \<lparr>loaded = True, mounted = True\<rparr>, \<lparr>loaded = True, mounted = True\<rparr>]"
    by (simp add: init_def cat_shimmer_on fire_img_load)
  from flags_monotonic_idempotent [OF cat_shimmer_on,
      of init "[img_load, effect_run, effect_run, img_load, img_load]"] cat_shimmer_on t
  show ?thesis by blast
qed

text \<open>
  C7. With shimmer off, two renders whose inputs agree on alt, src, the aspect-ratio
  mode and the extra class name give the same tree, whatever the two states are.
\<close>

theorem static_render_is_function_of_input:
  assumes "\<not> shimmer_on p" and "\<not> shimmer_on q"
    and "alt p = alt q" and "src p = src q"
    and "aspectRatio_of p = aspectRatio_of q"
    and "extraClassName p = extraClassName q"
  shows "Image p s = Image q s'"
  using assms by (simp add: Image_shimmer_off)

theorem static_render_is_function_of_input_witness:
  "\<not> shimmer_on cat_static \<and> \<not> shimmer_on (cat_static\<lparr>shimmer := Some False\<rparr>) \<and>
   Image cat_static init = Image (cat_static\<lparr>shimmer := Some False\<rparr>) \<lparr>loaded = True, mounted = True\<rparr>"
proof -
  have q: "\<not> shimmer_on (cat_static\<lparr>shimmer := Some False\<rparr>)"
    by (simp add: shimmer_on_def)
  from static_render_is_function_of_input [OF cat_static_off q, of init "\<lparr>loaded = True, mounted = True\<rparr>"]
    cat_static_off q
  show ?thesis by (simp add: aspectRatio_of_def extraClassName_def)
qed

text \<open>
  C8. \<^verbatim>\<open>Image\<close> has no validation and no failing branch: for every alt and
  src, the empty string included, each image element of the rendered tree has exactly
  the given alt and src. There is one image element, except on the shimmer path before
  the effect has run, where there is none.
\<close>

theorem alt_src_passed_unchanged:
  "map (\<lambda>e. (alt_of e, src_of e)) (imgs (Image p s)) =
     (if shimmer_on p \<and> \<not> mounted s then [] else [(alt p, src p)])"
proof (cases "shimmer_on p")
  case False
  then show ?thesis by (simp add: Image_shimmer_off imgs_wrapper_img)
next
  case True
  then show ?thesis
    by (cases "mounted s") (simp_all add: Image_mounted Image_unmounted imgs_wrapper_img imgs_wrapper_placeholder)
qed

theorem alt_src_passed_unchanged_witness:
  "map (\<lambda>e. (alt_of e, src_of e))
     (imgs (Image \<lparr>alt = [], aspectRatio = None, shimmer = None, src = [], imgProps = None\<rparr> init)) =
     [([], [])]"
  using alt_src_passed_unchanged
    [of "\<lparr>alt = [], aspectRatio = None, shimmer = None, src = [], imgProps = None\<rparr>" init]
  by (simp add: shimmer_on_def)

text \<open>
  C9. The blog schema accepts exactly the values that are objects with a string title,
  a string description, publishDate and updateDate each absent or a string or a date,
  and heroImage absent or a string; an object whose title or description is absent or
  not a string is rejected.
\<close>

theorem blog_schema_accepts:
  "accepts (schema blog) (Some v) = spec_record v \<and>
   (\<not> spec_string (map_of kvs ''title'') \<or> \<not> spec_string (map_of kvs ''description'')
      \<longrightarrow> \<not> accepts (schema blog) (Some (JObject kvs)))"
proof -
  have s: "accepts ZString w = spec_string w" for w
    by (cases w rule: spec_string.cases) simp_all
  have d: "accepts (ZOptional (ZOr ZString ZDate)) w = spec_optional spec_string_or_date w" for w
    by (cases w rule: spec_string_or_date.cases) (simp_all add: spec_optional_def)
  have h: "accepts (ZOptional ZString) w = spec_optional spec_string w" for w
    by (simp only: accepts.simps(4) s spec_optional_def)
  have o: "accepts (schema blog) (Some (JObject x)) = spec_record (JObject x)" for x
    by (simp add: blog_def s d h del: accepts.simps(1-4))
  have 1: "accepts (schema blog) (Some v) = spec_record v"
    by (cases v) (simp_all add: o, simp_all add: blog_def)
  have 2: "\<not> spec_string (map_of kvs ''title'') \<or> \<not> spec_string (map_of kvs ''description'')
      \<longrightarrow> \<not> accepts (schema blog) (Some (JObject kvs))"
    unfolding o by auto
  from 1 2 show ?thesis by (intro conjI)
qed

theorem blog_schema_accepts_witness:
  "accepts (schema blog) (Some (JObject [(''title'', JString ''Hello''),
      (''description'', JString ''First post''), (''publishDate'', JDate 0),
      (''tags'', JArray [])])) \<and>
   \<not> accepts (schema blog) (Some (JObject [(''description'', JString ''First post'')])) \<and>
   \<not> accepts (schema blog) (Some (JObject [(''title'', JNumber 1),
      (''description'', JString ''First post'')]))"
proof -
  have 1: "accepts (schema blog) (Some (JObject [(''title'', JString ''Hello''),
      (''description'', JString ''First post''), (''publishDate'', JDate 0),
      (''tags'', JArray [])]))"
    using blog_schema_accepts [of "JObject [(''title'', JString ''Hello''),
      (''description'', JString ''First post''), (''publishDate'', JDate 0),
      (''tags'', JArray [])]" "[]"]
    by (simp add: spec_optional_def)
  have 2: "\<not> accepts (schema blog) (Some (JObject [(''description'', JString ''First post'')]))"
    using blog_schema_accepts [of JNull "[(''description'', JString ''First post'')]"]
    by simp
  have 3: "\<not> accepts (schema blog) (Some (JObject [(''title'', JNumber 1),
      (''description'', JString ''First post'')]))"
    using blog_schema_accepts [of JNull "[(''title'', JNumber 1),
      (''description'', JString ''First post'')]"]
    by simp
  from 1 2 3 show ?thesis by (intro conjI)
qed

text \<open>
  C10. On the shimmer path, every state reached from the initial one has loaded only
  if mounted: the state loaded and not mounted is unreachable. The reason is in the
  render: before the effect has run no element of the tree has a load handler, so a
  load event changes nothing.
\<close>

theorem load_only_after_mount:
  assumes "shimmer_on p"
  shows "(loaded (run p init es) \<longrightarrow> mounted (run p init es)) \<and>
         run p init es \<noteq> \<lparr>loaded = True, mounted = False\<rparr> \<and>
         (\<not> mounted s \<longrightarrow> List.map_filter onLoad_of (imgs (Image p s)) = [] \<and> fire p s img_load = s)"
proof -
  have 1: "loaded (run p init es) \<longrightarrow> mounted (run p init es)"
    by (blast intro: run_init_inv)
  have 2: "run p init es \<noteq> \<lparr>loaded = True, mounted = False\<rparr>"
  proof
    assume e: "run p init es = \<lparr>loaded = True, mounted = False\<rparr>"
    then have "loaded (run p init es)" by simp
    then have "mounted (run p init es)" by (rule run_init_inv)
    with e show False by simp
  qed
  have 3: "\<not> mounted s \<longrightarrow> List.map_filter onLoad_of (imgs (Image p s)) = [] \<and> fire p s img_load = s"
    using assms
    by (simp add: Image_unmounted imgs_wrapper_placeholder List.map_filter_def fire_img_load)
  from 1 2 3 show ?thesis by (intro conjI)
qed

theorem load_only_after_mount_witness:
  "shimmer_on cat_shimmer \<and>
   run cat_shimmer init [effect_run, img_load] = \<lparr>loaded = True, mounted = True\<rparr> \<and>
   run cat_shimmer init [effect_run, img_load] \<noteq> \<lparr>loaded = True, mounted = False\<rparr> \<and>
   loaded (run cat_shimmer init [effect_run, img_load]) \<and>
   mounted (run cat_shimmer init [effect_run, img_load]) \<and>
   \<not> mounted init \<and> fire cat_shimmer init img_load = init"
proof -
  have l: "loaded (run cat_shimmer init [effect_run, img_load])"
    by (simp only: run_cat_load) simp
  have m: "\<not> mounted init" by (simp add: init_def)
  from load_only_after_mount [OF cat_shimmer_on, of "[effect_run, img_load]" init]
    cat_shimmer_on run_cat_load l m
  show ?thesis by blast
qed

end
